theory Spec2Isabelle
  imports Complex_Main
begin

section \<open>JavaScript numbers\<close>

text \<open>
  The PaddleVision code computes on JavaScript numbers. A number is modelled as a finite
  real or one of the three special values. The operations of this section are exact on
  finite numbers (no rounding, no overflow) and zero carries no sign (a zero divisor
  counts as \<open>+0\<close>); a division by zero and every operation on a special value give
  what the language gives. The smoothing filter, whose behaviour depends on it, rounds
  every result to double precision (see \<open>fl\<close> below).
\<close>

datatype jsnum = Fin real | PInf | NInf | NaN

fun jneg :: "jsnum \<Rightarrow> jsnum" where
  "jneg (Fin a) = Fin (- a)"
| "jneg PInf = NInf"
| "jneg NInf = PInf"
| "jneg NaN = NaN"

fun jadd :: "jsnum \<Rightarrow> jsnum \<Rightarrow> jsnum" where
  "jadd (Fin a) (Fin b) = Fin (a + b)"
| "jadd NaN _ = NaN"
| "jadd _ NaN = NaN"
| "jadd PInf NInf = NaN"
| "jadd NInf PInf = NaN"
| "jadd PInf _ = PInf"
| "jadd _ PInf = PInf"
| "jadd NInf _ = NInf"
| "jadd _ NInf = NInf"

definition jsub :: "jsnum \<Rightarrow> jsnum \<Rightarrow> jsnum" where
  "jsub a b = jadd a (jneg b)"

fun jmul :: "jsnum \<Rightarrow> jsnum \<Rightarrow> jsnum" where
  "jmul (Fin a) (Fin b) = Fin (a * b)"
| "jmul NaN _ = NaN"
| "jmul _ NaN = NaN"
| "jmul PInf (Fin b) = (if b = 0 then NaN else if 0 < b then PInf else NInf)"
| "jmul NInf (Fin b) = (if b = 0 then NaN else if 0 < b then NInf else PInf)"
| "jmul (Fin a) PInf = (if a = 0 then NaN else if 0 < a then PInf else NInf)"
| "jmul (Fin a) NInf = (if a = 0 then NaN else if 0 < a then NInf else PInf)"
| "jmul PInf PInf = PInf"
| "jmul PInf NInf = NInf"
| "jmul NInf PInf = NInf"
| "jmul NInf NInf = PInf"

fun jdiv :: "jsnum \<Rightarrow> jsnum \<Rightarrow> jsnum" where
  "jdiv (Fin a) (Fin b) =
     (if b \<noteq> 0 then Fin (a / b)
      else if a = 0 then NaN else if 0 < a then PInf else NInf)"
| "jdiv NaN _ = NaN"
| "jdiv _ NaN = NaN"
| "jdiv (Fin a) PInf = Fin 0"
| "jdiv (Fin a) NInf = Fin 0"
| "jdiv PInf (Fin b) = (if 0 \<le> b then PInf else NInf)"
| "jdiv NInf (Fin b) = (if 0 \<le> b then NInf else PInf)"
| "jdiv PInf PInf = NaN"
| "jdiv PInf NInf = NaN"
| "jdiv NInf PInf = NaN"
| "jdiv NInf NInf = NaN"

text \<open>The comparisons \<open><\<close> and \<open>>\<close>: false whenever an operand is \<open>NaN\<close>.\<close>

fun jlt :: "jsnum \<Rightarrow> jsnum \<Rightarrow> bool" where
  "jlt (Fin a) (Fin b) = (a < b)"
| "jlt NaN _ = False"
| "jlt _ NaN = False"
| "jlt PInf _ = False"
| "jlt _ NInf = False"
| "jlt NInf _ = True"
| "jlt _ PInf = True"

definition jgt :: "jsnum \<Rightarrow> jsnum \<Rightarrow> bool" where
  "jgt a b = jlt b a"

fun jle :: "jsnum \<Rightarrow> jsnum \<Rightarrow> bool" where
  "jle (Fin a) (Fin b) = (a \<le> b)"
| "jle NaN _ = False"
| "jle _ NaN = False"
| "jle NInf _ = True"
| "jle _ PInf = True"
| "jle PInf _ = False"
| "jle _ NInf = False"

text \<open>\<open>Math.max\<close>, \<open>Math.min\<close>, \<open>Math.abs\<close> and \<open>Math.sqrt\<close>.\<close>

fun jmax :: "jsnum \<Rightarrow> jsnum \<Rightarrow> jsnum" where
  "jmax NaN _ = NaN"
| "jmax _ NaN = NaN"
| "jmax a b = (if jlt a b then b else a)"

fun jmin :: "jsnum \<Rightarrow> jsnum \<Rightarrow> jsnum" where
  "jmin NaN _ = NaN"
| "jmin _ NaN = NaN"
| "jmin a b = (if jlt b a then b else a)"

fun jabs :: "jsnum \<Rightarrow> jsnum" where
  "jabs (Fin a) = Fin \<bar>a\<bar>"
| "jabs PInf = PInf"
| "jabs NInf = PInf"
| "jabs NaN = NaN"

fun jsqrt :: "jsnum \<Rightarrow> jsnum" where
  "jsqrt (Fin a) = (if a < 0 then NaN else Fin (sqrt a))"
| "jsqrt PInf = PInf"
| "jsqrt NInf = NaN"
| "jsqrt NaN = NaN"

text \<open>Truthiness of a number: \<open>0\<close> and \<open>NaN\<close> are falsy.\<close>

fun truthy :: "jsnum \<Rightarrow> bool" where
  "truthy (Fin a) = (a \<noteq> 0)"
| "truthy NaN = False"
| "truthy _ = True"

text \<open>\<open>v || d\<close> on an optional number (\<open>None\<close> is \<open>undefined\<close>).\<close>

fun or_default :: "jsnum option \<Rightarrow> jsnum \<Rightarrow> jsnum" where
  "or_default None d = d"
| "or_default (Some v) d = (if truthy v then v else d)"

text \<open>\<open>v ?? d\<close> on an optional number.\<close>

fun nullish_default :: "jsnum option \<Rightarrow> jsnum \<Rightarrow> jsnum" where
  "nullish_default None d = d"
| "nullish_default (Some v) d = v"

definition in_unit :: "jsnum \<Rightarrow> bool" where
  "in_unit v = (jle (Fin 0) v \<and> jle v (Fin 1))"

definition in_sym_unit :: "jsnum \<Rightarrow> bool" where
  "in_sym_unit v = (jle (Fin (- 1)) v \<and> jle v (Fin 1))"

section \<open>Values held by a processing context\<close>

text \<open>
  A context sub-map holds numbers and flat vectors such as \<open>{x, y}\<close>. A property read
  gives \<open>None\<close> for \<open>undefined\<close>; \<open>ToNumber\<close> of a vector or of \<open>undefined\<close> is
  \<open>NaN\<close>.
\<close>

datatype jsval = Num jsnum | Obj "(string \<times> jsnum) list"

fun get_prop :: "jsval \<Rightarrow> string \<Rightarrow> jsval option" where
  "get_prop (Num n) k = None"
| "get_prop (Obj fs) k = map_option Num (map_of fs k)"

fun ToNumber :: "jsval option \<Rightarrow> jsnum" where
  "ToNumber (Some (Num n)) = n"
| "ToNumber _ = NaN"

fun val_truthy :: "jsval option \<Rightarrow> bool" where
  "val_truthy None = False"
| "val_truthy (Some (Num n)) = truthy n"
| "val_truthy (Some (Obj fs)) = True"

datatype error = Error string

section \<open>Calibration profile\<close>

record ref_point =
  rawRotation :: jsnum
  variance :: jsnum

record sensitivity_cfg =
  left :: jsnum
  right :: jsnum

record tuning_cfg =
  sensitivity :: "sensitivity_cfg option"
  reverse :: bool

text \<open>
  A calibration profile: its two known top-level fields, each present or absent, and any
  further top-level fields by name. A field that is present holds a value of its shape.
\<close>

record calibration_profile =
  reference :: "(string \<rightharpoonup> ref_point) option"
  tuning :: "tuning_cfg option"
  other_fields :: "string \<rightharpoonup> string"

text \<open>\<open>reference.p?.rawRotation\<close>, on \<open>reference = calibration.reference || {}\<close>.\<close>

definition ref_rotation :: "(string \<rightharpoonup> ref_point) \<Rightarrow> string \<Rightarrow> jsnum option" where
  "ref_rotation refs p = map_option rawRotation (refs p)"

definition reference_or_empty :: "calibration_profile \<Rightarrow> (string \<rightharpoonup> ref_point)" where
  "reference_or_empty cal = (case reference cal of None \<Rightarrow> Map.empty | Some r \<Rightarrow> r)"

text \<open>\<open>Object.assign({}, base, profile)\<close> on profiles: a field of \<open>profile\<close> wins.\<close>

definition assign_profile ::
  "calibration_profile option \<Rightarrow> calibration_profile \<Rightarrow> calibration_profile" where
  "assign_profile base profile =
     (case base of
        None \<Rightarrow> profile
      | Some b \<Rightarrow>
          \<lparr> reference = (case reference profile of Some r \<Rightarrow> Some r | None \<Rightarrow> reference b),
            tuning = (case tuning profile of Some t \<Rightarrow> Some t | None \<Rightarrow> tuning b),
            other_fields = other_fields b ++ other_fields profile \<rparr>)"

section \<open>Frames, schema and context\<close>

record landmark =
  lx :: jsnum
  ly :: jsnum
  lz :: "jsnum option"

record frame =
  landmarks :: "landmark list option"
  timestamp :: jsnum

record normalize_cfg =
  norm_min :: jsnum
  norm_max :: jsnum
  outputMax :: "jsnum option"

record range_map =
  range_input :: "jsnum \<times> jsnum"
  range_output :: "jsnum \<times> jsnum"

record output_config =
  source :: string
  component :: "string option"
  range_cfg :: "range_map option"
  invert :: bool
  topic :: "string option"

text \<open>
  The parts of a schema read by the code below. \<open>schema_outputs\<close> lists the entries of
  \<open>schema.outputs\<close> in the order of \<open>Object.keys\<close>.
\<close>

record pv_schema =
  schema_landmarks :: "string \<rightharpoonup> nat"
  schema_outputs :: "(string \<times> output_config) list"
  schema_calibration :: "calibration_profile option"

record flick =
  amount :: jsnum
  direction :: jsnum

record pv_context =
  raw :: frame
  derived :: "string \<rightharpoonup> jsval"
  calibrated :: "string \<rightharpoonup> jsval"
  smoothed :: "string \<rightharpoonup> jsval"
  gestures_flick :: "flick option"
  outputs :: "string \<rightharpoonup> jsnum"
  meta :: "string \<rightharpoonup> jsval"
  calibration :: "calibration_profile option"

section \<open>Derivation library: distance and triangle area\<close>

text \<open>
  \<open>landmarks[schema.landmarks[name].index]\<close>: an unknown name is a \<open>TypeError\<close> at
  once; an index past the frame gives \<open>undefined\<close>, a \<open>TypeError\<close> when a coordinate
  is read.
\<close>

definition landmark_index :: "pv_schema \<Rightarrow> string \<Rightarrow> error + nat" where
  "landmark_index sch nm =
     (case schema_landmarks sch nm of
        None \<Rightarrow> Inl (Error ''TypeError'')
      | Some i \<Rightarrow> Inr i)"

definition landmark_at :: "landmark list \<Rightarrow> nat \<Rightarrow> landmark option" where
  "landmark_at lms i = (if i < length lms then Some (lms ! i) else None)"

fun collect_points :: "pv_schema \<Rightarrow> landmark list \<Rightarrow> string list \<Rightarrow> error + landmark option list" where
  "collect_points sch lms [] = Inr []"
| "collect_points sch lms (nm # nms) =
     (case landmark_index sch nm of
        Inl e \<Rightarrow> Inl e
      | Inr i \<Rightarrow>
          (case collect_points sch lms nms of
             Inl e \<Rightarrow> Inl e
           | Inr ps \<Rightarrow> Inr (landmark_at lms i # ps)))"

definition normalize_distance :: "normalize_cfg \<Rightarrow> jsnum \<Rightarrow> jsnum" where
  "normalize_distance n r =
     (let om = or_default (outputMax n) (Fin 1)
      in jmin om (jmax (Fin 0)
           (jmul (jdiv (jsub r (norm_min n)) (jsub (norm_max n) (norm_min n))) om)))"

definition normalize_area :: "normalize_cfg \<Rightarrow> jsnum \<Rightarrow> jsnum" where
  "normalize_area n r =
     (let om = or_default (outputMax n) (Fin 1)
      in jmin om (jmul (jdiv (jsub r (norm_min n)) (jsub (norm_max n) (norm_min n))) om))"

definition distance ::
  "landmark list \<Rightarrow> string \<Rightarrow> string \<Rightarrow> normalize_cfg option \<Rightarrow> pv_schema \<Rightarrow> error + jsnum" where
  "distance lms p_from p_to nrm sch =
     (case collect_points sch lms [p_from, p_to] of
        Inr [Some a, Some b] \<Rightarrow>
          (let dx = jsub (lx b) (lx a);
               dy = jsub (ly b) (ly a);
               dz = jsub (or_default (lz b) (Fin 0)) (or_default (lz a) (Fin 0));
               r = jsqrt (jadd (jadd (jmul dx dx) (jmul dy dy)) (jmul dz dz))
           in Inr (case nrm of None \<Rightarrow> r | Some n \<Rightarrow> normalize_distance n r))
      | Inl e \<Rightarrow> Inl e
      | _ \<Rightarrow> Inl (Error ''TypeError''))"

definition triangle_raw :: "landmark \<Rightarrow> landmark \<Rightarrow> landmark \<Rightarrow> jsnum" where
  "triangle_raw a b c =
     (let ax = jsub (lx b) (lx a); ay = jsub (ly b) (ly a);
          bx = jsub (lx c) (lx a); by = jsub (ly c) (ly a)
      in jdiv (jabs (jsub (jmul ax by) (jmul ay bx))) (Fin 2))"

definition triangleArea ::
  "landmark list \<Rightarrow> string list \<Rightarrow> normalize_cfg option \<Rightarrow> pv_schema \<Rightarrow> error + jsnum" where
  "triangleArea lms points nrm sch =
     (case collect_points sch lms points of
        Inl e \<Rightarrow> Inl e
      | Inr (Some a # Some b # Some c # rest) \<Rightarrow>
          (let r = triangle_raw a b c
           in Inr (case nrm of None \<Rightarrow> r | Some n \<Rightarrow> normalize_area n r))
      | Inr _ \<Rightarrow> Inl (Error ''TypeError''))"

section \<open>Calibrate processor\<close>

definition default_sensitivity :: sensitivity_cfg where
  "default_sensitivity = \<lparr> left = Fin 1, right = Fin 1 \<rparr>"

definition theta_range :: "(string \<rightharpoonup> ref_point) \<Rightarrow> jsnum" where
  "theta_range refs =
     jsub (or_default (ref_rotation refs ''pronate'') (Fin 0.52))
          (or_default (ref_rotation refs ''supinate'') (Fin (- 0.52)))"

text \<open>\<open>tuning.sensitivity || {left: 1.0, right: 1.0}\<close> and \<open>tuning.reverse\<close>, on
  \<open>tuning = calibration.tuning || {}\<close>.\<close>

definition sensitivity_of :: "tuning_cfg option \<Rightarrow> sensitivity_cfg" where
  "sensitivity_of tun =
     (case tun of
        None \<Rightarrow> default_sensitivity
      | Some t \<Rightarrow> (case sensitivity t of None \<Rightarrow> default_sensitivity | Some s \<Rightarrow> s))"

definition reverse_of :: "tuning_cfg option \<Rightarrow> bool" where
  "reverse_of tun = (case tun of None \<Rightarrow> False | Some t \<Rightarrow> reverse t)"

definition calibrate_rotation ::
  "(string \<rightharpoonup> ref_point) \<Rightarrow> tuning_cfg option \<Rightarrow> jsnum \<Rightarrow> jsnum" where
  "calibrate_rotation refs tun r =
     (let normalized =
            jdiv (jsub r (or_default (ref_rotation refs ''center'') (Fin 0)))
                 (jdiv (theta_range refs) (Fin 2));
          sens = sensitivity_of tun;
          scaled = (if jlt normalized (Fin 0) then jmul normalized (left sens)
                    else jmul normalized (right sens));
          clamped = jmax (Fin (- 1)) (jmin (Fin 1) scaled)
      in if reverse_of tun then jneg clamped else clamped)"

definition calibrate_center :: "jsval \<Rightarrow> jsval" where
  "calibrate_center hc =
     Obj [(''x'', jmul (jsub (ToNumber (get_prop hc ''x'')) (Fin 0.5)) (Fin 2)),
          (''y'', jmul (jsub (ToNumber (get_prop hc ''y'')) (Fin 0.5)) (Fin 2))]"

text \<open>\<open>context.calibration || this.schema.calibration\<close>.\<close>

definition calibration_of :: "pv_schema \<Rightarrow> pv_context \<Rightarrow> calibration_profile option" where
  "calibration_of sch ctx =
     (case calibration ctx of Some c \<Rightarrow> Some c | None \<Rightarrow> schema_calibration sch)"

definition calibrate_process :: "pv_schema \<Rightarrow> pv_context \<Rightarrow> pv_context" where
  "calibrate_process sch ctx =
     (let cal = calibration_of sch ctx;
          refs = (case cal of None \<Rightarrow> Map.empty | Some c \<Rightarrow> reference_or_empty c);
          tun = (case cal of None \<Rightarrow> None | Some c \<Rightarrow> tuning c);
          d = derived ctx;
          c1 = (case d ''hand-rotation'' of
                  None \<Rightarrow> d
                | Some v \<Rightarrow>
                    (if refs ''center'' = None then d
                     else d(''hand-rotation-calibrated'' \<mapsto>
                            Num (calibrate_rotation refs tun (ToNumber (Some v))))));
          c2 = (case d ''hand-center'' of
                  None \<Rightarrow> c1
                | Some hc \<Rightarrow>
                    (if val_truthy (Some hc)
                     then c1(''hand-center-calibrated'' \<mapsto> calibrate_center hc)
                     else c1))
      in ctx\<lparr> calibrated := c2 \<rparr>)"

section \<open>Rounding to double precision\<close>

text \<open>
  \<open>fl x\<close> is the double that an operation with the exact result \<open>x\<close> returns: the
  nearest number with a significand of 53 bits, a tie going to the even significand;
  below \<open>2^-1022\<close> the spacing stays \<open>2^-1074\<close> (subnormal numbers), and a result that
  rounds to \<open>2^1024\<close> or beyond is an infinity.
\<close>

definition pow2 :: "int \<Rightarrow> real" where
  "pow2 e = (if 0 \<le> e then 2 ^ nat e else 1 / 2 ^ nat (- e))"

definition exponent :: "real \<Rightarrow> int" where
  "exponent x = \<lfloor>log 2 \<bar>x\<bar>\<rfloor>"

definition round_even :: "real \<Rightarrow> int" where
  "round_even y =
     (let n = \<lfloor>y\<rfloor>; r = y - of_int n
      in if r < 1 / 2 then n else if 1 / 2 < r then n + 1 else if even n then n else n + 1)"

definition ulp :: "real \<Rightarrow> real" where
  "ulp x = pow2 (max (exponent x) (- 1022) - 52)"

definition round_real :: "real \<Rightarrow> real" where
  "round_real x = (if x = 0 then 0 else of_int (round_even (x / ulp x)) * ulp x)"

definition fl :: "real \<Rightarrow> jsnum" where
  "fl x =
     (let r = round_real x
      in if pow2 1024 \<le> r then PInf else if r \<le> - pow2 1024 then NInf else Fin r)"

text \<open>The result of an operation, rounded when it is finite.\<close>

fun rnd :: "jsnum \<Rightarrow> jsnum" where
  "rnd (Fin r) = fl r"
| "rnd v = v"

section \<open>Smooth processor\<close>

record smooth_config =
  factor :: "jsnum option"
  deadzone :: "jsnum option"

record smooth_state =
  st_x :: jsnum
  st_y :: jsnum
  theta :: jsnum
  spread :: jsnum

definition smooth_initial :: smooth_state where
  "smooth_initial = \<lparr> st_x = Fin 0, st_y = Fin 0, theta = Fin 0, spread = Fin 0 \<rparr>"

text \<open>
  The closure \<open>smooth(current, target)\<close>, with the deadzone and the factor it reads;
  the subtraction, \<open>1 - factor\<close>, the product and the sum are each rounded.
\<close>

definition smooth :: "jsnum \<Rightarrow> jsnum \<Rightarrow> jsnum \<Rightarrow> jsnum \<Rightarrow> jsnum" where
  "smooth dz f current target =
     (let delta = rnd (jsub target current)
      in if jlt (jabs delta) dz then current
         else rnd (jadd current (rnd (jmul delta (rnd (jsub (Fin 1) f))))))"

text \<open>The four channels, the value each holds and the target each reads from a context.\<close>

datatype channel = ChX | ChY | ChTheta | ChSpread


definition smooth_center :: "pv_context \<Rightarrow> jsval" where
  "smooth_center ctx =
     (case calibrated ctx ''hand-center-calibrated'' of
        None \<Rightarrow> Obj [(''x'', Fin 0), (''y'', Fin 0)]
      | Some hc \<Rightarrow> (if val_truthy (Some hc) then hc else Obj [(''x'', Fin 0), (''y'', Fin 0)]))"

primrec channel_target :: "channel \<Rightarrow> pv_context \<Rightarrow> jsnum" where
  "channel_target ChX ctx = ToNumber (get_prop (smooth_center ctx) ''x'')"
| "channel_target ChY ctx = ToNumber (get_prop (smooth_center ctx) ''y'')"
| "channel_target ChTheta ctx =
     (case calibrated ctx ''hand-rotation-calibrated'' of
        None \<Rightarrow> Fin 0 | Some v \<Rightarrow> ToNumber (Some v))"
| "channel_target ChSpread ctx =
     (case derived ctx ''finger-spread'' of None \<Rightarrow> Fin 0 | Some v \<Rightarrow> ToNumber (Some v))"

text \<open>\<open>config.factor ?? 0.3\<close> and \<open>config.deadzone ?? 0.02\<close>; a literal is a double.\<close>

definition factor_of :: "smooth_config \<Rightarrow> jsnum" where
  "factor_of cfg = nullish_default (factor cfg) (fl 0.3)"

definition deadzone_of :: "smooth_config \<Rightarrow> jsnum" where
  "deadzone_of cfg = nullish_default (deadzone cfg) (fl 0.02)"

definition smooth_process ::
  "smooth_config \<Rightarrow> smooth_state \<Rightarrow> pv_context \<Rightarrow> pv_context \<times> smooth_state" where
  "smooth_process cfg s ctx =
     (let f = factor_of cfg;
          dz = deadzone_of cfg;
          s' = \<lparr> st_x = smooth dz f (st_x s) (channel_target ChX ctx),
                 st_y = smooth dz f (st_y s) (channel_target ChY ctx),
                 theta = smooth dz f (theta s) (channel_target ChTheta ctx),
                 spread = smooth dz f (spread s) (channel_target ChSpread ctx) \<rparr>
      in (ctx\<lparr> smoothed := [''x'' \<mapsto> Num (st_x s'), ''y'' \<mapsto> Num (st_y s'),
                              ''theta'' \<mapsto> Num (theta s'), ''spread'' \<mapsto> Num (spread s')] \<rparr>,
          s'))"


section \<open>Processors and the pipeline\<close>

text \<open>
  A processor carries its name, its private state and its \<open>process\<close> method. The method
  either returns the next context or throws; either way it may have changed the
  processor's own state. It does not write into the context object it was handed, as
  the built-in stages do not: each returns a fresh context.
\<close>

datatype proc_state = SmoothState smooth_state | OtherState "(string \<times> jsnum) list"

record processor =
  p_name :: string
  p_state :: proc_state
  p_process :: "proc_state \<Rightarrow> pv_context \<Rightarrow> (error + pv_context) \<times> proc_state"

definition SmoothProcessor :: "smooth_config \<Rightarrow> processor" where
  "SmoothProcessor cfg =
     \<lparr> p_name = ''SmoothProcessor'',
       p_state = SmoothState smooth_initial,
       p_process = (\<lambda>st ctx.
          (case st of
             SmoothState s \<Rightarrow> (let (c, s') = smooth_process cfg s ctx in (Inr c, SmoothState s'))
           | OtherState fs \<Rightarrow> (Inl (Error ''TypeError''), st))) \<rparr>"

definition CalibrateProcessor :: "pv_schema \<Rightarrow> processor" where
  "CalibrateProcessor sch =
     \<lparr> p_name = ''CalibrateProcessor'',
       p_state = OtherState [],
       p_process = (\<lambda>st ctx. (Inr (calibrate_process sch ctx), st)) \<rparr>"


definition initial_context :: "pv_schema \<Rightarrow> frame \<Rightarrow> calibration_profile option \<Rightarrow> pv_context" where
  "initial_context sch inp cal =
     \<lparr> raw = inp, derived = Map.empty, calibrated = Map.empty, smoothed = Map.empty,
       gestures_flick = None, outputs = Map.empty, meta = Map.empty,
       calibration = (case cal of Some c \<Rightarrow> Some c | None \<Rightarrow> schema_calibration sch) \<rparr>"

text \<open>
  The loop of \<open>ProcessorPipeline.process\<close>: the final context, the processors with
  their new states, and the errors that were caught and logged, in order.
\<close>

fun run_stages :: "processor list \<Rightarrow> pv_context \<Rightarrow> pv_context \<times> processor list \<times> error list" where
  "run_stages [] ctx = (ctx, [], [])"
| "run_stages (p # ps) ctx =
     (case p_process p (p_state p) ctx of
        (Inr ctx', st') \<Rightarrow>
          (case run_stages ps ctx' of
             (c, qs, es) \<Rightarrow> (c, p\<lparr> p_state := st' \<rparr> # qs, es))
      | (Inl e, st') \<Rightarrow>
          (case run_stages ps ctx of
             (c, qs, es) \<Rightarrow> (c, p\<lparr> p_state := st' \<rparr> # qs, e # es)))"

definition pipeline_process ::
  "pv_schema \<Rightarrow> processor list \<Rightarrow> frame \<Rightarrow> calibration_profile option
     \<Rightarrow> pv_context \<times> processor list \<times> error list" where
  "pipeline_process sch procs inp cal = run_stages procs (initial_context sch inp cal)"

definition getProcessor :: "processor list \<Rightarrow> string \<Rightarrow> processor option" where
  "getProcessor procs nm = find (\<lambda>p. p_name p = nm) procs"

section \<open>The adapter\<close>

datatype emission = Emit nat string jsnum string

record adapter_stats =
  framesProcessed :: nat
  lastTimestamp :: jsnum
  detectedFrames :: nat

text \<open>
  The adapter: \<open>sinks\<close> names its sinks, and \<open>emitted\<close> collects every call of a sink's
  \<open>emit\<close> (sink, control, value, topic), the latest last; a sink's \<open>emit\<close> returns
  normally. The adapter holds a calibration, its own or the schema's. The adapter's
  calibration and the schema's default are kept as two values: the sharing that
  \<open>Object.assign\<close> leaves between them is not followed.
\<close>

record adapter =
  schema :: pv_schema
  sinks :: "nat list"
  adapter_calibration :: calibration_profile
  pipeline :: "processor list"
  stats :: adapter_stats
  running :: bool
  emitted :: "emission list"

definition new_adapter ::
  "pv_schema \<Rightarrow> nat list \<Rightarrow> calibration_profile \<Rightarrow> processor list \<Rightarrow> adapter" where
  "new_adapter sch snks cal procs =
     \<lparr> schema = sch, sinks = snks, adapter_calibration = cal, pipeline = procs,
       stats = \<lparr> framesProcessed = 0, lastTimestamp = Fin 0, detectedFrames = 0 \<rparr>,
       running = False, emitted = [] \<rparr>"

definition lookup_source :: "pv_context \<Rightarrow> string \<Rightarrow> jsval option" where
  "lookup_source ctx src =
     (case smoothed ctx src of
        Some v \<Rightarrow> Some v
      | None \<Rightarrow>
          (case calibrated ctx src of
             Some v \<Rightarrow> Some v
           | None \<Rightarrow> derived ctx src))"

definition component_of :: "output_config \<Rightarrow> string option" where
  "component_of cfg = (case component cfg of Some c \<Rightarrow> (if c = [] then None else Some c) | None \<Rightarrow> None)"

definition resolveOutput :: "pv_context \<Rightarrow> output_config \<Rightarrow> jsval option" where
  "resolveOutput ctx cfg =
     (case lookup_source ctx (source cfg) of
        Some v \<Rightarrow> (case component_of cfg of Some c \<Rightarrow> get_prop v c | None \<Rightarrow> Some v)
      | None \<Rightarrow> Some (Num (Fin 0)))"

definition range_transform :: "range_map \<Rightarrow> jsnum \<Rightarrow> jsnum" where
  "range_transform r v =
     (let inMin = fst (range_input r); inMax = snd (range_input r);
          outMin = fst (range_output r); outMax = snd (range_output r);
          v1 = jdiv (jsub v inMin) (jsub inMax inMin)
      in jadd outMin (jmul v1 (jsub outMax outMin)))"

text \<open>The range transform, the inversion and the clamp applied to a resolved value.\<close>

definition transform_output :: "output_config \<Rightarrow> jsnum \<Rightarrow> jsnum" where
  "transform_output cfg v0 =
     (let v1 = (case range_cfg cfg of Some r \<Rightarrow> range_transform r v0 | None \<Rightarrow> v0);
          v2 = (if invert cfg then jsub (Fin 1) v1 else v1)
      in jmax (Fin 0) (jmin (Fin 1) v2))"

definition output_value :: "pv_context \<Rightarrow> output_config \<Rightarrow> jsnum" where
  "output_value ctx cfg = transform_output cfg (ToNumber (resolveOutput ctx cfg))"

definition topic_of :: "output_config \<Rightarrow> string" where
  "topic_of cfg = (case topic cfg of Some t \<Rightarrow> (if t = [] then ''hand'' else t) | None \<Rightarrow> ''hand'')"

fun emit_entries ::
  "nat list \<Rightarrow> (string \<times> output_config) list \<Rightarrow> pv_context \<Rightarrow> pv_context \<times> emission list" where
  "emit_entries snks [] ctx = (ctx, [])"
| "emit_entries snks ((nm, cfg) # rest) ctx =
     (let v = output_value ctx cfg;
          ctx' = ctx\<lparr> outputs := (outputs ctx)(nm \<mapsto> v) \<rparr>;
          (c, es) = emit_entries snks rest ctx'
      in (c, map (\<lambda>s. Emit s nm v (topic_of cfg)) snks @ es))"

definition emit_flick :: "nat list \<Rightarrow> pv_context \<Rightarrow> emission list" where
  "emit_flick snks ctx =
     (case gestures_flick ctx of
        None \<Rightarrow> []
      | Some flk \<Rightarrow>
          (if jgt (amount flk) (Fin 0.1)
           then concat (map (\<lambda>s. [Emit s ''flick-amount'' (amount flk) ''hand'',
                                   Emit s ''flick-direction''
                                     (jdiv (jadd (direction flk) (Fin 1)) (Fin 2)) ''hand'']) snks)
           else []))"

definition emitOutputs :: "adapter \<Rightarrow> pv_context \<Rightarrow> pv_context \<times> emission list" where
  "emitOutputs a ctx =
     (let (c, es) = emit_entries (sinks a) (schema_outputs (schema a)) ctx
      in (c, es @ emit_flick (sinks a) c))"

definition too_few_landmarks :: "frame \<Rightarrow> bool" where
  "too_few_landmarks d = (case landmarks d of None \<Rightarrow> True | Some ls \<Rightarrow> length ls < 21)"

definition processFrame :: "adapter \<Rightarrow> frame \<Rightarrow> adapter" where
  "processFrame a d =
     (let st1 = (stats a)\<lparr> framesProcessed := framesProcessed (stats a) + 1,
                           lastTimestamp := timestamp d \<rparr>
      in if too_few_landmarks d then a\<lparr> stats := st1 \<rparr>
         else
           (let st2 = st1\<lparr> detectedFrames := detectedFrames st1 + 1 \<rparr>;
                (ctx, procs, errs) =
                   pipeline_process (schema a) (pipeline a) d (Some (adapter_calibration a));
                (ctx', es) = emitOutputs a ctx
            in a\<lparr> stats := st2, pipeline := procs, emitted := emitted a @ es \<rparr>))"

text \<open>
  \<open>start()\<close> with the answer of the source, \<open>stop()\<close>, and a frame offered by the
  source, which reaches \<open>_processFrame\<close> only while the adapter is subscribed.
\<close>

datatype adapter_op = Start bool | Stop | Frame frame

fun adapter_step :: "adapter \<Rightarrow> adapter_op \<Rightarrow> adapter" where
  "adapter_step a (Start started) =
     (if running a then a else if \<not> started then a else a\<lparr> running := True \<rparr>)"
| "adapter_step a Stop = (if \<not> running a then a else a\<lparr> running := False \<rparr>)"
| "adapter_step a (Frame d) = (if running a then processFrame a d else a)"

definition run_ops :: "adapter \<Rightarrow> adapter_op list \<Rightarrow> adapter" where
  "run_ops a ops = foldl adapter_step a ops"

record stats_report =
  rep_framesProcessed :: nat
  rep_detectedFrames :: nat
  detectionRate :: jsnum
  rep_lastTimestamp :: jsnum

definition getStats :: "adapter \<Rightarrow> stats_report" where
  "getStats a =
     \<lparr> rep_framesProcessed = framesProcessed (stats a),
       rep_detectedFrames = detectedFrames (stats a),
       detectionRate =
         (if framesProcessed (stats a) > 0
          then jdiv (Fin (real (detectedFrames (stats a)))) (Fin (real (framesProcessed (stats a))))
          else Fin 0),
       rep_lastTimestamp = lastTimestamp (stats a) \<rparr>"

subsection \<open>Calibration API\<close>

definition setCalibration :: "adapter \<Rightarrow> calibration_profile \<Rightarrow> adapter" where
  "setCalibration a profile =
     a\<lparr> adapter_calibration := assign_profile (schema_calibration (schema a)) profile \<rparr>"

text \<open>
  \<open>smoothProc._state.theta\<close>: the Smooth processor keeps it; any other state, read
  as a flat record of numbers, may or may not.
\<close>

fun state_theta :: "proc_state \<Rightarrow> jsnum option" where
  "state_theta (SmoothState s) = Some (theta s)"
| "state_theta (OtherState fs) = map_of fs ''theta''"

definition captureReferencePoint :: "adapter \<Rightarrow> string \<Rightarrow> ref_point option \<times> adapter" where
  "captureReferencePoint a point =
     (case getProcessor (pipeline a) ''SmoothProcessor'' of
        None \<Rightarrow> (None, a)
      | Some p \<Rightarrow>
          (case state_theta (p_state p) of
             None \<Rightarrow> (None, a)
           | Some th \<Rightarrow>
               (if \<not> truthy th then (None, a)
                else
                  (let pt = \<lparr> rawRotation = th, variance = Fin 0.02 \<rparr>;
                       cal = adapter_calibration a;
                       refs = (reference_or_empty cal)(point \<mapsto> pt)
                   in (refs point, a\<lparr> adapter_calibration := cal\<lparr> reference := Some refs \<rparr> \<rparr>)))))"



text \<open>
  \<open>importCalibration\<close>: \<open>parse\<close> stands for \<open>JSON.parse\<close> followed by the reading of
  the parsed value as a profile; \<open>None\<close> is its \<open>SyntaxError\<close>. A parsed value that
  is not an object (\<open>null\<close>, a number, a boolean) reads as the profile with no field,
  as \<open>Object.assign\<close> takes nothing from it.
\<close>

definition importCalibration ::
  "(string \<Rightarrow> calibration_profile option) \<Rightarrow> adapter \<Rightarrow> string \<Rightarrow> bool \<times> adapter" where
  "importCalibration parse a json =
     (case parse json of
        Some profile \<Rightarrow> (True, setCalibration a profile)
      | None \<Rightarrow> (False, a))"


section \<open>The built-in default schema\<close>

text \<open>The calibration, the landmark table and the outputs of \<open>_getDefaultSchema\<close>.\<close>

definition default_calibration :: calibration_profile where
  "default_calibration =
     \<lparr> reference = Some [''center'' \<mapsto> \<lparr> rawRotation = Fin 0, variance = Fin 0.01 \<rparr>,
                          ''supinate'' \<mapsto> \<lparr> rawRotation = Fin (- 0.52), variance = Fin 0.02 \<rparr>,
                          ''pronate'' \<mapsto> \<lparr> rawRotation = Fin 0.52, variance = Fin 0.02 \<rparr>],
       tuning = Some \<lparr> sensitivity = Some \<lparr> left = Fin 1, right = Fin 1 \<rparr>, reverse = False \<rparr>,
       other_fields = Map.empty \<rparr>"

definition unit_range :: "real \<Rightarrow> real \<Rightarrow> range_map" where
  "unit_range lo hi = \<lparr> range_input = (Fin lo, Fin hi), range_output = (Fin 0, Fin 1) \<rparr>"

definition default_outputs :: "(string \<times> output_config) list" where
  "default_outputs =
     [(''hand-x'', \<lparr> source = ''hand-center-calibrated'', component = Some ''x'',
                     range_cfg = Some (unit_range (- 1) 1), invert = False, topic = Some ''hand'' \<rparr>),
      (''hand-y'', \<lparr> source = ''hand-center-calibrated'', component = Some ''y'',
                     range_cfg = Some (unit_range (- 1) 1), invert = False, topic = Some ''hand'' \<rparr>),
      (''hand-theta'', \<lparr> source = ''hand-rotation-calibrated'', component = None,
                     range_cfg = Some (unit_range (- 1) 1), invert = False, topic = Some ''hand'' \<rparr>),
      (''hand-spread'', \<lparr> source = ''finger-spread'', component = None,
                     range_cfg = Some (unit_range 0 1), invert = False, topic = Some ''hand'' \<rparr>)]"

definition default_schema :: pv_schema where
  "default_schema =
     \<lparr> schema_landmarks = [''WRIST'' \<mapsto> 0, ''INDEX_MCP'' \<mapsto> 5, ''PINKY_MCP'' \<mapsto> 17,
                           ''THUMB_TIP'' \<mapsto> 4, ''INDEX_TIP'' \<mapsto> 8, ''MIDDLE_TIP'' \<mapsto> 12],
       schema_outputs = default_outputs,
       schema_calibration = Some default_calibration \<rparr>"

definition default_smooth_config :: smooth_config where
  "default_smooth_config = \<lparr> factor = Some (fl 0.3), deadzone = Some (fl 0.02) \<rparr>"

text \<open>An adapter on the default schema with one sink and the calibrate and smooth stages.\<close>

definition default_adapter :: adapter where
  "default_adapter =
     new_adapter default_schema [0] default_calibration
       [CalibrateProcessor default_schema, SmoothProcessor default_smooth_config]"

section \<open>Predicates used in the statements\<close>

definition stats_ok :: "adapter \<Rightarrow> bool" where
  "stats_ok a = (detectedFrames (stats a) \<le> framesProcessed (stats a))"




text \<open>A profile whose three reference points hold the given rotations.\<close>

definition reference_of :: "real \<Rightarrow> real \<Rightarrow> real \<Rightarrow> calibration_profile" where
  "reference_of s p c =
     \<lparr> reference = Some [''supinate'' \<mapsto> \<lparr> rawRotation = Fin s, variance = Fin 0.02 \<rparr>,
                          ''pronate'' \<mapsto> \<lparr> rawRotation = Fin p, variance = Fin 0.02 \<rparr>,
                          ''center'' \<mapsto> \<lparr> rawRotation = Fin c, variance = Fin 0.02 \<rparr>],
       tuning = None, other_fields = Map.empty \<rparr>"

text \<open>A frame of 21 landmarks that all sit at the centre of the image.\<close>

definition frame21 :: frame where
  "frame21 = \<lparr> landmarks = Some (replicate 21 \<lparr> lx = Fin 0.5, ly = Fin 0.5, lz = None \<rparr>),
               timestamp = Fin 7 \<rparr>"

text \<open>The normalisation that the default schema gives to \<open>finger-spread\<close>.\<close>

definition default_spread_normalize :: normalize_cfg where
  "default_spread_normalize = \<lparr> norm_min = Fin 0.001, norm_max = Fin 0.05, outputMax = Some (Fin 1) \<rparr>"

text \<open>The default adapter once its Smooth processor holds the rotation \<open>th\<close>.\<close>

definition adapter_at_theta :: "jsnum \<Rightarrow> adapter" where
  "adapter_at_theta th =
     default_adapter\<lparr> pipeline :=
       [CalibrateProcessor default_schema,
        (SmoothProcessor default_smooth_config)\<lparr> p_state := SmoothState (smooth_initial\<lparr> theta := th \<rparr>) \<rparr>] \<rparr>"

text \<open>A profile with no field, and a parser that accepts the text \<open>{}\<close> only.\<close>

definition empty_profile :: calibration_profile where
  "empty_profile = \<lparr> reference = None, tuning = None, other_fields = Map.empty \<rparr>"

definition parse_braces :: "string \<Rightarrow> calibration_profile option" where
  "parse_braces s = (if s = ''{}'' then Some empty_profile else None)"








text \<open>
  The rotation range as the specification words it, with the defaults taken only when
  a reference point is unset; and the normalisation of a rotation on finite numbers.
\<close>

definition claimed_theta_range :: "(string \<rightharpoonup> ref_point) \<Rightarrow> jsnum" where
  "claimed_theta_range refs =
     jsub (case refs ''pronate'' of None \<Rightarrow> Fin 0.52 | Some p \<Rightarrow> rawRotation p)
          (case refs ''supinate'' of None \<Rightarrow> Fin (- 0.52) | Some p \<Rightarrow> rawRotation p)"

definition normalized_rotation ::
  "real \<Rightarrow> real \<Rightarrow> real \<Rightarrow> real \<Rightarrow> real \<Rightarrow> real \<Rightarrow> bool \<Rightarrow> real" where
  "normalized_rotation r c p s sl sr rv =
     (let n = (r - c) / ((p - s) / 2);
          m = (if n < 0 then n * sl else n * sr);
          k = max (- 1) (min 1 m)
      in if rv then - k else k)"

text \<open>A context that carries the calibration \<open>cal\<close> and the raw rotation \<open>r\<close>.\<close>

definition rotation_context :: "calibration_profile \<Rightarrow> real \<Rightarrow> pv_context" where
  "rotation_context cal r =
     (initial_context default_schema frame21 (Some cal))
       \<lparr> derived := [''hand-rotation'' \<mapsto> Num (Fin r)] \<rparr>"









section \<open>Finite numbers\<close>

lemma jsub_Fin: "jsub (Fin a) (Fin b) = Fin (a - b)"
  by (simp add: jsub_def)


lemma truthy_iff: "truthy v = (v \<noteq> Fin 0 \<and> v \<noteq> NaN)"
  by (cases v) simp_all

section \<open>Statistics\<close>

lemma processFrame_stats:
  "stats (processFrame a d) =
     (stats a)\<lparr> framesProcessed := framesProcessed (stats a) + 1,
                lastTimestamp := timestamp d,
                detectedFrames := (if too_few_landmarks d then detectedFrames (stats a)
                                   else detectedFrames (stats a) + 1) \<rparr>"
  by (simp add: processFrame_def Let_def split: prod.splits)

lemma stats_ok_processFrame: "stats_ok a \<Longrightarrow> stats_ok (processFrame a d)"
  by (simp add: stats_ok_def processFrame_stats)

lemma stats_ok_step: "stats_ok a \<Longrightarrow> stats_ok (adapter_step a op)"
  by (cases op) (auto simp: stats_ok_processFrame, simp_all add: stats_ok_def)

lemma stats_ok_run: "stats_ok a \<Longrightarrow> stats_ok (run_ops a ops)"
  unfolding run_ops_def
  by (induction ops arbitrary: a) (simp_all add: stats_ok_step)

lemma stats_ok_new: "stats_ok (new_adapter sch snks cal procs)"
  by (simp add: stats_ok_def new_adapter_def)

lemma rate_in_unit: "stats_ok a \<Longrightarrow> in_unit (detectionRate (getStats a))"
  by (auto simp: stats_ok_def getStats_def in_unit_def divide_le_eq)

lemma rate_zero_iff:
  "stats_ok a \<Longrightarrow> (detectionRate (getStats a) = Fin 0) = (detectedFrames (stats a) = 0)"
  by (auto simp: stats_ok_def getStats_def)

text \<open>
  C10, as stated, fails in its last part: after \<open>start()\<close> and one frame that carries no
  landmarks, one frame has been processed and the detection rate is 0.
\<close>

theorem detectionRate_zero_counterexample:
  "\<not> ((detectionRate (getStats (run_ops default_adapter
            [Start True, Frame \<lparr> landmarks = None, timestamp = Fin 1 \<rparr>])) = Fin 0)
       = (framesProcessed (stats (run_ops default_adapter
            [Start True, Frame \<lparr> landmarks = None, timestamp = Fin 1 \<rparr>])) = 0))"
  by (simp add: run_ops_def default_adapter_def new_adapter_def processFrame_def
      too_few_landmarks_def getStats_def)

text \<open>
  C10 (amended): after any sequence of \<open>start\<close>, frames and \<open>stop\<close> on a new adapter,
  \<open>detectedFrames \<le> framesProcessed\<close>; a processed frame always adds one to
  \<open>framesProcessed\<close> and at most one to \<open>detectedFrames\<close>; the detection rate lies in
  [0,1]; and it is 0 exactly when \<open>detectedFrames\<close> is 0, so in particular whenever
  \<open>framesProcessed\<close> is 0.
\<close>

theorem stats_invariant:
  "detectedFrames (stats (run_ops (new_adapter sch snks cal procs) ops))
     \<le> framesProcessed (stats (run_ops (new_adapter sch snks cal procs) ops))
   \<and> framesProcessed (stats (processFrame a d)) = framesProcessed (stats a) + 1
   \<and> detectedFrames (stats (processFrame a d)) \<le> detectedFrames (stats a) + 1
   \<and> in_unit (detectionRate (getStats (run_ops (new_adapter sch snks cal procs) ops)))
   \<and> (detectionRate (getStats (run_ops (new_adapter sch snks cal procs) ops)) = Fin 0)
       = (detectedFrames (stats (run_ops (new_adapter sch snks cal procs) ops)) = 0)
   \<and> (framesProcessed (stats (run_ops (new_adapter sch snks cal procs) ops)) = 0
        \<longrightarrow> detectionRate (getStats (run_ops (new_adapter sch snks cal procs) ops)) = Fin 0)"
proof -
  let ?a = "run_ops (new_adapter sch snks cal procs) ops"
  have ok: "stats_ok ?a"
    by (rule stats_ok_run [OF stats_ok_new])
  have le: "detectedFrames (stats ?a) \<le> framesProcessed (stats ?a)"
    using ok by (simp add: stats_ok_def)
  have zero: "(detectionRate (getStats ?a) = Fin 0) = (detectedFrames (stats ?a) = 0)"
    by (rule rate_zero_iff [OF ok])
  have "framesProcessed (stats ?a) = 0 \<longrightarrow> detectionRate (getStats ?a) = Fin 0"
    using le zero by simp
  then show ?thesis
    using le zero rate_in_unit [OF ok] by (simp add: processFrame_stats)
qed

theorem stats_invariant_witness:
  "framesProcessed (stats (run_ops default_adapter [Start True, Stop])) = 0
   \<and> detectionRate (getStats (run_ops default_adapter [Start True, Stop])) = Fin 0"
  using stats_invariant [where sch = default_schema and snks = "[0]"
      and cal = default_calibration
      and procs = "[CalibrateProcessor default_schema, SmoothProcessor default_smooth_config]"
      and ops = "[Start True, Stop]"]
  by (simp add: default_adapter_def run_ops_def new_adapter_def)

section \<open>Frames with too few landmarks\<close>

text \<open>
  C8: a frame whose landmarks are absent or fewer than 21 adds one to \<open>framesProcessed\<close>
  and records its timestamp; \<open>detectedFrames\<close>, every processor of the pipeline with its
  state, the calls made on the sinks and the rest of the adapter stay as they were.
\<close>

theorem short_frame_skipped:
  assumes "landmarks d = None \<or> (\<exists>ls. landmarks d = Some ls \<and> length ls < 21)"
  shows "framesProcessed (stats (processFrame a d)) = framesProcessed (stats a) + 1
       \<and> lastTimestamp (stats (processFrame a d)) = timestamp d
       \<and> detectedFrames (stats (processFrame a d)) = detectedFrames (stats a)
       \<and> pipeline (processFrame a d) = pipeline a
       \<and> emitted (processFrame a d) = emitted a
       \<and> adapter_calibration (processFrame a d) = adapter_calibration a
       \<and> running (processFrame a d) = running a"
proof -
  have "too_few_landmarks d"
    using assms by (auto simp: too_few_landmarks_def)
  then show ?thesis
    by (simp add: processFrame_def Let_def)
qed

theorem short_frame_skipped_witness:
  "length (replicate 20 \<lparr> lx = Fin 0.5, ly = Fin 0.5, lz = None \<rparr>) < 21
   \<and> framesProcessed (stats (processFrame default_adapter
        \<lparr> landmarks = Some (replicate 20 \<lparr> lx = Fin 0.5, ly = Fin 0.5, lz = None \<rparr>),
          timestamp = Fin 7 \<rparr>)) = 1
   \<and> detectedFrames (stats (processFrame default_adapter
        \<lparr> landmarks = Some (replicate 20 \<lparr> lx = Fin 0.5, ly = Fin 0.5, lz = None \<rparr>),
          timestamp = Fin 7 \<rparr>)) = 0
   \<and> pipeline (processFrame default_adapter
        \<lparr> landmarks = Some (replicate 20 \<lparr> lx = Fin 0.5, ly = Fin 0.5, lz = None \<rparr>),
          timestamp = Fin 7 \<rparr>) = pipeline default_adapter
   \<and> emitted (processFrame default_adapter
        \<lparr> landmarks = Some (replicate 20 \<lparr> lx = Fin 0.5, ly = Fin 0.5, lz = None \<rparr>),
          timestamp = Fin 7 \<rparr>) = []"
  using short_frame_skipped [where a = default_adapter
      and d = "\<lparr> landmarks = Some (replicate 20 \<lparr> lx = Fin 0.5, ly = Fin 0.5, lz = None \<rparr>),
                 timestamp = Fin 7 \<rparr>"]
  by (simp add: default_adapter_def new_adapter_def)

section \<open>Validation of a calibration\<close>


section \<open>Rounding\<close>

lemma pow2_powr: "pow2 e = 2 powr (of_int e)"
  by (simp add: pow2_def powr_int)

lemma pow2_pos: "0 < pow2 e"
  by (simp add: pow2_powr)

lemma pow2_add: "pow2 (a + b) = pow2 a * pow2 b"
  by (simp add: pow2_powr powr_add)



lemma exponent_eq:
  assumes "pow2 e \<le> \<bar>x\<bar>" and "\<bar>x\<bar> < pow2 (e + 1)"
  shows "exponent x = e"
proof -
  have "0 < \<bar>x\<bar>" using assms(1) pow2_pos [of e] by linarith
  then show ?thesis
    using floor_log_eq_powr_iff [of "\<bar>x\<bar>" 2 e] assms by (simp add: exponent_def pow2_powr)
qed


lemma round_even_cases:
  "round_even y = \<lfloor>y\<rfloor> \<or> round_even y = \<lfloor>y\<rfloor> + 1"
  by (simp add: round_even_def Let_def)


lemma round_even_of_int: "round_even (of_int m) = m"
  by (simp add: round_even_def)





lemma pow2_shift53: "pow2 (e + 1) = 2 ^ 53 * pow2 (e - 52)"
proof -
  have "pow2 (e + 1) = pow2 ((e - 52) + 53)" by (rule arg_cong [where f = pow2]) simp
  also have "\<dots> = pow2 (e - 52) * pow2 53" by (rule pow2_add)
  also have "pow2 53 = 2 ^ 53" by (simp add: pow2_def)
  finally show ?thesis by simp
qed

lemma pow2_shift52: "pow2 e = 2 ^ 52 * pow2 (e - 52)"
proof -
  have "pow2 e = pow2 ((e - 52) + 52)" by (rule arg_cong [where f = pow2]) simp
  also have "\<dots> = pow2 (e - 52) * pow2 52" by (rule pow2_add)
  also have "pow2 52 = 2 ^ 52" by (simp add: pow2_def)
  finally show ?thesis by simp
qed











text \<open>Evaluating the rounding at a number whose exponent is known.\<close>

lemma round_real_eval:
  assumes "pow2 e \<le> \<bar>x\<bar>" and "\<bar>x\<bar> < pow2 (e + 1)" and "- 1022 \<le> e"
  shows "round_real x = of_int (round_even (x / pow2 (e - 52))) * pow2 (e - 52)"
proof -
  have "exponent x = e" using assms(1,2) by (rule exponent_eq)
  moreover have "x \<noteq> 0" using assms(1) pow2_pos [of e] by auto
  ultimately show ?thesis using assms(3) by (simp add: round_real_def ulp_def)
qed

lemma round_real_fixed:
  assumes "x = of_int m * pow2 (e - 52)" and "2 ^ 52 \<le> \<bar>m\<bar>" and "\<bar>m\<bar> < 2 ^ 53" and "- 1022 \<le> e"
  shows "round_real x = x"
proof -
  have am: "\<bar>x\<bar> = of_int \<bar>m\<bar> * pow2 (e - 52)"
    using pow2_pos [of "e - 52"] by (simp add: assms(1) abs_mult)
  have lo: "(of_int (2 ^ 52) :: real) \<le> of_int \<bar>m\<bar>" and hi: "(of_int \<bar>m\<bar> :: real) < of_int (2 ^ 53)"
    using assms(2,3) by (simp_all only: of_int_le_iff of_int_less_iff)
  have "of_int (2 ^ 52) * pow2 (e - 52) \<le> of_int \<bar>m\<bar> * pow2 (e - 52)"
    using lo pow2_pos [of "e - 52"] by (simp only: mult_le_cancel_right_pos)
  then have 1: "pow2 e \<le> \<bar>x\<bar>" using pow2_shift52 [of e] am by simp
  have "of_int \<bar>m\<bar> * pow2 (e - 52) < of_int (2 ^ 53) * pow2 (e - 52)"
    using hi pow2_pos [of "e - 52"] by (simp only: mult_less_cancel_right_pos)
  then have 2: "\<bar>x\<bar> < pow2 (e + 1)" using pow2_shift53 [of e] am by simp
  have "round_real x = of_int (round_even (x / pow2 (e - 52))) * pow2 (e - 52)"
    using 1 2 assms(4) by (rule round_real_eval)
  moreover have "x / pow2 (e - 52) = of_int m"
    using pow2_pos [of "e - 52"] by (simp add: assms(1))
  ultimately show ?thesis by (simp add: round_even_of_int assms(1))
qed



lemma round_real_neg_pow2: "- 1022 \<le> e \<Longrightarrow> round_real (- pow2 e) = - pow2 e"
  using round_real_fixed [of "- pow2 e" "- (2 ^ 52)" e] pow2_shift52 [of e] by simp






lemma fl_Fin_iff: "fl x = Fin r \<longleftrightarrow> r = round_real x \<and> \<bar>round_real x\<bar> < pow2 1024"
  using pow2_pos [of 1024] by (auto simp: fl_def Let_def)












lemma fl_minus_one: "fl (- 1) = Fin (- 1)"
  using round_real_neg_pow2 [of 0] by (simp add: fl_Fin_iff) (simp add: pow2_def)






section \<open>Smoothing\<close>























section \<open>Fault isolation in the pipeline\<close>





section \<open>Triangle area\<close>

lemma collect3: "collect_points default_schema (replicate 21 lm) [''THUMB_TIP'', ''INDEX_TIP'', ''MIDDLE_TIP'']
  = Inr [Some lm, Some lm, Some lm]"
  by (simp add: default_schema_def landmark_index_def landmark_at_def)

text \<open>
  C5: on a frame whose three finger tips coincide, with the normalisation of the default
  schema, the triangle-area derivation returns -1/49, below 0: it applies the upper
  bound of the rescaling only, where the distance derivation on the same frame and the
  same normalisation returns 0.
\<close>

theorem triangleArea_below_zero:
  "triangleArea (replicate 21 \<lparr> lx = Fin 0.5, ly = Fin 0.5, lz = None \<rparr>)
       [''THUMB_TIP'', ''INDEX_TIP'', ''MIDDLE_TIP''] (Some default_spread_normalize) default_schema
     = Inr (Fin (- 1 / 49))
   \<and> \<not> jle (Fin 0) (Fin (- 1 / 49))
   \<and> distance (replicate 21 \<lparr> lx = Fin 0.5, ly = Fin 0.5, lz = None \<rparr>)
       ''THUMB_TIP'' ''INDEX_TIP'' (Some default_spread_normalize) default_schema
     = Inr (Fin 0)"
  by (simp add: triangleArea_def distance_def collect3 default_schema_def landmark_index_def landmark_at_def
      triangle_raw_def normalize_area_def normalize_distance_def default_spread_normalize_def jsub_def Let_def)

section \<open>Capturing a reference point\<close>

text \<open>
  C6, as stated, fails when the current theta is 0: on a new adapter, whose pipeline
  holds the Smooth processor in its initial state, the capture returns nothing and
  writes nothing.
\<close>

theorem capture_zero_counterexample:
  "map_option p_state (getProcessor (pipeline default_adapter) ''SmoothProcessor'')
     = Some (SmoothState smooth_initial)
   \<and> theta smooth_initial = Fin 0
   \<and> captureReferencePoint default_adapter ''center'' = (None, default_adapter)"
  by (simp add: captureReferencePoint_def default_adapter_def new_adapter_def getProcessor_def
      CalibrateProcessor_def SmoothProcessor_def smooth_initial_def)

text \<open>
  C6 (amended): when the pipeline holds the Smooth processor and its current theta is
  neither 0 nor \<open>NaN\<close>, \<open>captureReferencePoint(point)\<close> writes the record of that theta
  with variance 0.02 into \<open>calibration.reference[point]\<close>, changes nothing else, and
  returns the record; when theta is 0 it returns \<open>null\<close> and leaves the adapter as it was.
\<close>

theorem captureReferencePoint_nonzero:
  assumes "getProcessor (pipeline a) ''SmoothProcessor'' = Some p"
      and "p_state p = SmoothState s"
  shows "(theta s \<noteq> Fin 0 \<and> theta s \<noteq> NaN \<longrightarrow>
            fst (captureReferencePoint a point) = Some \<lparr> rawRotation = theta s, variance = Fin 0.02 \<rparr>
          \<and> snd (captureReferencePoint a point) =
              a\<lparr> adapter_calibration := (adapter_calibration a)\<lparr> reference :=
                   Some ((reference_or_empty (adapter_calibration a))
                          (point \<mapsto> \<lparr> rawRotation = theta s, variance = Fin 0.02 \<rparr>)) \<rparr> \<rparr>
          \<and> reference_or_empty (adapter_calibration (snd (captureReferencePoint a point))) point
              = Some \<lparr> rawRotation = theta s, variance = Fin 0.02 \<rparr>)
       \<and> (theta s = Fin 0 \<longrightarrow> captureReferencePoint a point = (None, a))"
  using assms
  by (simp add: captureReferencePoint_def truthy_iff Let_def reference_or_empty_def)

theorem captureReferencePoint_nonzero_witness:
  "fst (captureReferencePoint (adapter_at_theta (Fin 0.3)) ''pronate'')
     = Some \<lparr> rawRotation = Fin 0.3, variance = Fin 0.02 \<rparr>
   \<and> reference_or_empty (adapter_calibration
        (snd (captureReferencePoint (adapter_at_theta (Fin 0.3)) ''pronate''))) ''pronate''
     = Some \<lparr> rawRotation = Fin 0.3, variance = Fin 0.02 \<rparr>"
proof -
  have found: "getProcessor (pipeline (adapter_at_theta (Fin 0.3))) ''SmoothProcessor''
      = Some ((SmoothProcessor default_smooth_config)
               \<lparr> p_state := SmoothState (smooth_initial\<lparr> theta := Fin 0.3 \<rparr>) \<rparr>)"
    by (simp add: adapter_at_theta_def getProcessor_def CalibrateProcessor_def SmoothProcessor_def)
  have st: "p_state ((SmoothProcessor default_smooth_config)
               \<lparr> p_state := SmoothState (smooth_initial\<lparr> theta := Fin 0.3 \<rparr>) \<rparr>)
      = SmoothState (smooth_initial\<lparr> theta := Fin 0.3 \<rparr>)"
    by simp
  have nonzero: "theta (smooth_initial\<lparr> theta := Fin 0.3 \<rparr>) \<noteq> Fin 0
      \<and> theta (smooth_initial\<lparr> theta := Fin 0.3 \<rparr>) \<noteq> NaN"
    by simp
  have th: "theta (smooth_initial\<lparr> theta := Fin 0.3 \<rparr>) = Fin 0.3"
    by simp
  from captureReferencePoint_nonzero [OF found st, where point = "''pronate''"] nonzero
  show ?thesis unfolding th by blast
qed

section \<open>Importing a calibration\<close>

text \<open>
  C9: when the text does not parse, \<open>importCalibration\<close> returns false and the adapter,
  its calibration included, is unchanged; when it parses, the call returns true and the
  calibration becomes the schema's default calibration with the top-level fields of the
  parsed profile laid over it: a field the profile lacks keeps the schema's value.
\<close>

theorem importCalibration_result:
  "(parse json = None \<longrightarrow> importCalibration parse a json = (False, a))
   \<and> (parse json = Some profile \<longrightarrow>
        importCalibration parse a json
          = (True, a\<lparr> adapter_calibration := assign_profile (schema_calibration (schema a)) profile \<rparr>))
   \<and> (schema_calibration (schema a) = Some b \<longrightarrow>
        reference (assign_profile (schema_calibration (schema a)) profile)
          = (if reference profile = None then reference b else reference profile)
      \<and> tuning (assign_profile (schema_calibration (schema a)) profile)
          = (if tuning profile = None then tuning b else tuning profile)
      \<and> other_fields (assign_profile (schema_calibration (schema a)) profile) k
          = (if other_fields profile k = None then other_fields b k else other_fields profile k))"
  by (auto simp: importCalibration_def setCalibration_def assign_profile_def map_add_def
      split: option.splits)

theorem importCalibration_result_witness:
  "importCalibration parse_braces default_adapter ''{reference'' = (False, default_adapter)
   \<and> fst (importCalibration parse_braces default_adapter ''{}'') = True
   \<and> adapter_calibration (snd (importCalibration parse_braces default_adapter ''{}''))
       = default_calibration"
proof -
  have bad: "parse_braces ''{reference'' = None"
    by (simp add: parse_braces_def)
  have good: "parse_braces ''{}'' = Some empty_profile"
    by (simp add: parse_braces_def)
  have sc: "schema_calibration (schema default_adapter) = Some default_calibration"
    by (simp add: default_adapter_def new_adapter_def default_schema_def)
  have same: "assign_profile (Some default_calibration) empty_profile = default_calibration"
    by (simp add: assign_profile_def empty_profile_def default_calibration_def)
  from importCalibration_result [where parse = parse_braces and a = default_adapter
      and json = "''{reference''" and profile = empty_profile and b = default_calibration]
    importCalibration_result [where parse = parse_braces and a = default_adapter
      and json = "''{}''" and profile = empty_profile and b = default_calibration]
    bad good sc same
  show ?thesis by simp
qed

section \<open>Output resolution\<close>

lemma output_value_outputs [simp]:
  "output_value (ctx\<lparr> outputs := m \<rparr>) cfg = output_value ctx cfg"
  by (simp add: output_value_def resolveOutput_def lookup_source_def cong: option.case_cong)















section \<open>Calibration of the rotation\<close>

lemma calibrate_rotation_finite:
  assumes "or_default (ref_rotation refs ''center'') (Fin 0) = Fin c"
      and "or_default (ref_rotation refs ''pronate'') (Fin 0.52) = Fin p"
      and "or_default (ref_rotation refs ''supinate'') (Fin (- 0.52)) = Fin s"
      and "p \<noteq> s"
      and "left (sensitivity_of tun) = Fin sl"
      and "right (sensitivity_of tun) = Fin sr"
  shows "calibrate_rotation refs tun (Fin r) = Fin (normalized_rotation r c p s sl sr (reverse_of tun))"
  using assms
  by (simp add: calibrate_rotation_def theta_range_def normalized_rotation_def jsub_Fin Let_def
      max_def min_def)

lemma clamp_sym_or_NaN:
  "in_sym_unit (jmax (Fin (- 1)) (jmin (Fin 1) u)) \<or> jmax (Fin (- 1)) (jmin (Fin 1) u) = NaN"
  by (cases u) (simp_all add: in_sym_unit_def)

lemma jneg_sym: "in_sym_unit u \<Longrightarrow> in_sym_unit (jneg u)"
  by (cases u) (simp_all add: in_sym_unit_def)

lemma calibrate_rotation_sym_or_NaN:
  "in_sym_unit (calibrate_rotation refs tun u) \<or> calibrate_rotation refs tun u = NaN"
proof -
  let ?n = "jdiv (jsub u (or_default (ref_rotation refs ''center'') (Fin 0)))
                 (jdiv (theta_range refs) (Fin 2))"
  let ?scaled = "if jlt ?n (Fin 0) then jmul ?n (left (sensitivity_of tun))
                 else jmul ?n (right (sensitivity_of tun))"
  let ?c = "jmax (Fin (- 1)) (jmin (Fin 1) ?scaled)"
  have eq: "calibrate_rotation refs tun u = (if reverse_of tun then jneg ?c else ?c)"
    by (simp add: calibrate_rotation_def Let_def)
  have c: "in_sym_unit ?c \<or> ?c = NaN"
    by (rule clamp_sym_or_NaN)
  show ?thesis
  proof (cases "reverse_of tun")
    case True
    then show ?thesis using c eq jneg_sym [of ?c] by auto
  next
    case False
    then show ?thesis using c eq by auto
  qed
qed

lemma normalized_rotation_bounds:
  "- 1 \<le> normalized_rotation r c p s sl sr rv \<and> normalized_rotation r c p s sl sr rv \<le> 1"
  by (simp add: normalized_rotation_def Let_def)

lemma normalized_rotation_center: "normalized_rotation c c p s sl sr rv = 0"
  by (simp add: normalized_rotation_def Let_def)

text \<open>
  C2, as stated, fails twice. A pronate reference whose rotation is set to 0 is
  replaced by 0.52: with supinate -1, centre 0 and raw rotation 0.5 the code divides by
  half of 1.52 and stores 25/38, where the range 0 - (-1) = 1 of the claim gives 1. And
  when the pronate and supinate rotations coincide the range is 0: a raw rotation equal
  to the centre then stores \<open>NaN\<close>, neither 0 nor in [-1,1].
\<close>

theorem calibrate_rotation_counterexample:
  "calibrated (calibrate_process default_schema (rotation_context (reference_of (- 1) 0 0) 0.5))
      ''hand-rotation-calibrated'' = Some (Num (Fin (25 / 38)))
   \<and> claimed_theta_range (reference_or_empty (reference_of (- 1) 0 0)) = Fin 1
   \<and> theta_range (reference_or_empty (reference_of (- 1) 0 0)) = Fin 1.52
   \<and> normalized_rotation 0.5 0 0 (- 1) 1 1 False = 1
   \<and> calibrated (calibrate_process default_schema (rotation_context (reference_of 0.3 0.3 0.3) 0.3))
      ''hand-rotation-calibrated'' = Some (Num NaN)
   \<and> \<not> in_sym_unit NaN"
  by (simp add: calibrate_process_def calibration_of_def rotation_context_def initial_context_def
      reference_of_def reference_or_empty_def calibrate_rotation_def theta_range_def
      claimed_theta_range_def ref_rotation_def sensitivity_of_def reverse_of_def
      default_sensitivity_def normalized_rotation_def jsub_Fin in_sym_unit_def Let_def)

text \<open>
  C2 (amended): let \<open>p\<close> be the pronate rotation, or 0.52 when it is unset or 0, and \<open>s\<close>
  the supinate rotation, or -0.52 when it is unset or 0. For a context that holds a
  finite \<open>hand-rotation\<close> \<open>r\<close> and a calibration with a centre of finite rotation \<open>c\<close>,
  finite \<open>p \<noteq> s\<close> and finite sensitivities, the calibrate stage stores
  \<open>(r - c) / ((p - s) / 2)\<close>, multiplied by the left sensitivity when negative and by
  the right one otherwise, clamped to [-1,1] and negated exactly when \<open>reverse\<close> is
  set. The stored value lies in [-1,1], and is 0 when \<open>r = c\<close>. Whatever the
  calibration and the raw rotation, the stored value is in [-1,1] or is \<open>NaN\<close>.
\<close>

theorem calibrate_rotation_formula:
  assumes "derived ctx ''hand-rotation'' = Some (Num (Fin r))"
      and "calibration_of sch ctx = Some cal"
      and "reference_or_empty cal ''center'' = Some cp"
      and "rawRotation cp = Fin c"
      and "or_default (ref_rotation (reference_or_empty cal) ''pronate'') (Fin 0.52) = Fin p"
      and "or_default (ref_rotation (reference_or_empty cal) ''supinate'') (Fin (- 0.52)) = Fin s"
      and "p \<noteq> s"
      and "left (sensitivity_of (tuning cal)) = Fin sl"
      and "right (sensitivity_of (tuning cal)) = Fin sr"
  shows "calibrated (calibrate_process sch ctx) ''hand-rotation-calibrated''
           = Some (Num (Fin (normalized_rotation r c p s sl sr (reverse_of (tuning cal)))))
       \<and> in_sym_unit (Fin (normalized_rotation r c p s sl sr (reverse_of (tuning cal))))
       \<and> (r = c \<longrightarrow> calibrated (calibrate_process sch ctx) ''hand-rotation-calibrated''
                        = Some (Num (Fin 0)))
       \<and> (in_sym_unit (calibrate_rotation refs tun u) \<or> calibrate_rotation refs tun u = NaN)"
proof -
  have center: "or_default (ref_rotation (reference_or_empty cal) ''center'') (Fin 0) = Fin c"
    using assms(3,4) by (simp add: ref_rotation_def)
  have rot: "calibrate_rotation (reference_or_empty cal) (tuning cal) (Fin r)
               = Fin (normalized_rotation r c p s sl sr (reverse_of (tuning cal)))"
    by (rule calibrate_rotation_finite [OF center assms(5,6,7,8,9)])
  have stored: "calibrated (calibrate_process sch ctx) ''hand-rotation-calibrated''
           = Some (Num (Fin (normalized_rotation r c p s sl sr (reverse_of (tuning cal)))))"
    using assms(1,2,3) rot
    by (simp add: calibrate_process_def Let_def split: option.splits)
  have bounded: "in_sym_unit (Fin (normalized_rotation r c p s sl sr (reverse_of (tuning cal))))"
    using normalized_rotation_bounds [of r c p s sl sr "reverse_of (tuning cal)"]
    by (simp add: in_sym_unit_def)
  have centre: "r = c \<longrightarrow> calibrated (calibrate_process sch ctx) ''hand-rotation-calibrated''
                        = Some (Num (Fin 0))"
    using stored normalized_rotation_center [of c p s sl sr "reverse_of (tuning cal)"]
    by simp
  have either: "in_sym_unit (calibrate_rotation refs tun u) \<or> calibrate_rotation refs tun u = NaN"
    by (rule calibrate_rotation_sym_or_NaN)
  from stored bounded centre either show ?thesis
    by (intro conjI)
qed

theorem calibrate_rotation_formula_witness:
  "calibrated (calibrate_process default_schema (rotation_context default_calibration 0.26))
      ''hand-rotation-calibrated'' = Some (Num (Fin 0.5))
   \<and> in_sym_unit (Fin 0.5)"
proof -
  have h1: "derived (rotation_context default_calibration 0.26) ''hand-rotation'' = Some (Num (Fin 0.26))"
    by (simp add: rotation_context_def)
  have h2: "calibration_of default_schema (rotation_context default_calibration 0.26)
      = Some default_calibration"
    by (simp add: calibration_of_def rotation_context_def initial_context_def)
  have h3: "reference_or_empty default_calibration ''center''
      = Some \<lparr> rawRotation = Fin 0, variance = Fin 0.01 \<rparr>"
    by (simp add: reference_or_empty_def default_calibration_def)
  have h4: "rawRotation \<lparr> rawRotation = Fin 0, variance = Fin 0.01 \<rparr> = Fin 0"
    by simp
  have h5: "or_default (ref_rotation (reference_or_empty default_calibration) ''pronate'') (Fin 0.52)
      = Fin 0.52"
    by (simp add: reference_or_empty_def default_calibration_def ref_rotation_def)
  have h6: "or_default (ref_rotation (reference_or_empty default_calibration) ''supinate'') (Fin (- 0.52))
      = Fin (- 0.52)"
    by (simp add: reference_or_empty_def default_calibration_def ref_rotation_def)
  have h7: "(0.52::real) \<noteq> - 0.52"
    by simp
  have h8: "left (sensitivity_of (tuning default_calibration)) = Fin 1"
    and h9: "right (sensitivity_of (tuning default_calibration)) = Fin 1"
    by (simp_all add: sensitivity_of_def default_calibration_def)
  have v: "normalized_rotation 0.26 0 0.52 (- 0.52) 1 1 (reverse_of (tuning default_calibration)) = 0.5"
    by (simp add: normalized_rotation_def reverse_of_def default_calibration_def)
  from calibrate_rotation_formula [OF h1 h2 h3 h4 h5 h6 h7 h8 h9] show ?thesis
    unfolding v by blast
qed

end
